theory Spec2Isabelle
  imports Main "HOL-Library.Sublist"
begin

section \<open>OAuth authorization-code sample: the HTTP handlers of package server\<close>

text \<open>
  The development follows \<^verbatim>\<open>server/handlers.go\<close>. Each handler is a function of
  its inputs (configuration, the session manager, the request, the identity provider's
  answers) to what it does: the calls it makes on
  the response writer, the provider and the session store, in the order it makes them.
  A Go panic is a value of type \<open>fault\<close>.
\<close>

subsection \<open>Values held by a session\<close>

text \<open>
  The session store keeps \<^verbatim>\<open>interface{}\<close> values under string keys. The handlers
  store strings, decoded profile documents (\<^verbatim>\<open>map[string]interface{}\<close>, kept opaque as
  the type parameter \<open>'p\<close>) and whatever \<^verbatim>\<open>token.Extra\<close> returns, which is the nil
  interface when the provider sent no such field.
\<close>

datatype 'p ivalue = VNil | VString string | VProfile 'p

type_synonym 'p session = "string \<rightharpoonup> 'p ivalue"

text \<open>\<^verbatim>\<open>session.Get(key)\<close>: the stored value, the nil interface for a key never set.\<close>

definition sessionGet :: "'p session \<Rightarrow> string \<Rightarrow> 'p ivalue" where
  "sessionGet s k = (case s k of None \<Rightarrow> VNil | Some v \<Rightarrow> v)"

text \<open>\<^verbatim>\<open>session.Set(key, value)\<close>.\<close>

definition sessionSet :: "'p session \<Rightarrow> string \<Rightarrow> 'p ivalue \<Rightarrow> 'p session" where
  "sessionSet s k v = s(k \<mapsto> v)"

subsection \<open>Configuration\<close>

text \<open>
  Modelled from the spec: the struct \<^verbatim>\<open>authConfig\<close> is declared in another file of the
  package; the handlers read the four fields below, which are the spec's static
  configuration (identity-provider domain, client id and secret, callback URL).
\<close>

record authConfig =
  Domain :: string
  ClientID :: string
  ClientSecret :: string
  CallbackURL :: string

text \<open>\<^verbatim>\<open>oauth2.Endpoint\<close> and \<^verbatim>\<open>oauth2.Config\<close>, with the fields the handler fills in.\<close>

record oauth2_Endpoint =
  AuthURL :: string
  TokenURL :: string

record oauth2_Config =
  oauth2_ClientID :: string
  oauth2_ClientSecret :: string
  RedirectURL :: string
  Scopes :: "string list"
  Endpoint :: oauth2_Endpoint

text \<open>The \<^verbatim>\<open>&oauth2.Config{...}\<close> literal at the head of \<^verbatim>\<open>callbackHandler\<close>.\<close>

definition newConf :: "authConfig \<Rightarrow> oauth2_Config" where
  "newConf config =
     \<lparr> oauth2_ClientID = ClientID config,
       oauth2_ClientSecret = ClientSecret config,
       RedirectURL = CallbackURL config,
       Scopes = [''openid'', ''test.access'', ''test.admin''],
       Endpoint = \<lparr> AuthURL = Domain config @ ''/oauth/authorize'',
                    TokenURL = Domain config @ ''/oauth/token'' \<rparr> \<rparr>"

subsection \<open>Requests and responses\<close>

text \<open>
  The handlers read a request only through \<^verbatim>\<open>r.URL.Query().Get(key)\<close>: the parsed
  query string is the list of its key/value pairs in order, and \<^verbatim>\<open>Get\<close> gives the
  first value of the key, the empty string when the key is absent. The session manager
  reads the value of the request's session cookie, if it has one.
\<close>

record request =
  query :: "(string \<times> string) list"
  cookie :: "string option"

definition queryGet :: "request \<Rightarrow> string \<Rightarrow> string" where
  "queryGet r k = (case map_of (query r) k of None \<Rightarrow> [] | Some v \<Rightarrow> v)"

text \<open>
  \<^verbatim>\<open>sessionManager.SessionStart(w, r)\<close> returns the store of the request's session and
  an error; when the error is not nil the store is nil. The manager is the session
  library's, and on which requests it fails is its own matter (on a session cookie whose
  value cannot be unescaped, for one): a manager is given by the store it returns on
  each request, \<open>None\<close> for the nil store.
\<close>

type_synonym 'p Manager = "request \<Rightarrow> 'p session option"

text \<open>
  What a handler does to its \<^verbatim>\<open>http.ResponseWriter\<close>; every path of every handler
  makes exactly one of these calls:
  \<^item> \<open>http_Error msg code\<close> is \<^verbatim>\<open>http.Error(w, msg, code)\<close>;
  \<^item> \<open>http_Redirect url code\<close> is \<^verbatim>\<open>http.Redirect(w, r, url, code)\<close>;
  \<^item> \<open>Write ct b\<close> is \<^verbatim>\<open>w.Header().Set("Content-Type", ct)\<close> followed by
    \<^verbatim>\<open>w.Write(b)\<close>;
  \<^item> \<open>Fprintf s\<close> is \<^verbatim>\<open>fmt.Fprintf(w, s)\<close> for a string without verbs.
\<close>

datatype response =
    http_Error string nat
  | http_Redirect string nat
  | Write string string
  | Fprintf string

definition StatusOK :: nat where "StatusOK = 200"
definition StatusMovedPermanently :: nat where "StatusMovedPermanently = 301"
definition StatusBadRequest :: nat where "StatusBadRequest = 400"
definition StatusInternalServerError :: nat where "StatusInternalServerError = 500"

text \<open>
  The status line net/http sends: the code given to \<^verbatim>\<open>http.Error\<close> or
  \<^verbatim>\<open>http.Redirect\<close>, and 200 when the handler writes a body without calling
  \<^verbatim>\<open>WriteHeader\<close>.
\<close>

fun resp_status :: "response \<Rightarrow> nat" where
  "resp_status (http_Error msg code) = code"
| "resp_status (http_Redirect url code) = code"
| "resp_status (Write ct b) = StatusOK"
| "resp_status (Fprintf s) = StatusOK"

text \<open>
  The body the handler itself supplies. \<^verbatim>\<open>http.Error\<close> prints the message with
  \<^verbatim>\<open>Fprintln\<close>, so a newline follows it. The note net/http writes after a redirect
  depends on the request method and is not a value of the handler: \<open>None\<close>.
\<close>

fun resp_body :: "response \<Rightarrow> string option" where
  "resp_body (http_Error msg code) = Some (msg @ ''\<newline>'')"
| "resp_body (http_Redirect url code) = None"
| "resp_body (Write ct b) = Some b"
| "resp_body (Fprintf s) = Some s"

fun resp_location :: "response \<Rightarrow> string option" where
  "resp_location (http_Redirect url code) = Some url"
| "resp_location (http_Error msg code) = None"
| "resp_location (Write ct b) = None"
| "resp_location (Fprintf s) = None"

subsection \<open>Claims parsing and the scope gate\<close>

record ClaimSet =
  scopes :: "string list"

definition emptyClaimSet :: ClaimSet where
  "emptyClaimSet = \<lparr> scopes = [] \<rparr>"

datatype ParseError = ParseError

text \<open>
  The token format is left open by the spec ("a claims-bearing signed token format"):
  a decoder gives the claims of a well-formed token and \<open>None\<close> for a malformed one.
\<close>

type_synonym decoder = "string \<Rightarrow> ClaimSet option"

text \<open>
  Modelled from the spec: \<^verbatim>\<open>parseToken\<close> is called by the handlers but defined in a
  file of the package that is not among the sources. The spec's contract is
  \<^verbatim>\<open>parse(tokenString) -> (ClaimSet, error)\<close>, a pure function without side effects;
  malformed input fails with a ParseError, and an empty or unparsable token yields an
  empty ClaimSet alongside the error.
\<close>

definition parseToken :: "decoder \<Rightarrow> string \<Rightarrow> ClaimSet \<times> ParseError option" where
  "parseToken dec t =
     (if t = [] then (emptyClaimSet, Some ParseError)
      else case dec t of
             None \<Rightarrow> (emptyClaimSet, Some ParseError)
           | Some c \<Rightarrow> (c, None))"

text \<open>
  Modelled from the spec: \<^verbatim>\<open>hasScope\<close> is called by the handlers but defined in a
  file of the package that is not among the sources. The spec's contract is
  \<^verbatim>\<open>hasScope(claims, requiredScopes...) -> bool\<close>, pure and total: any one of the
  acceptable scopes that is among the claims' scopes grants access (logical OR), scope
  strings matching exactly.
\<close>

definition hasScope :: "ClaimSet \<Rightarrow> string list \<Rightarrow> bool" where
  "hasScope claims requiredScopes = list_ex (\<lambda>r. r \<in> set (scopes claims)) requiredScopes"

subsection \<open>The protected pages\<close>

definition accessPage :: string where
  \<open>accessPage =
     ''\<newline><html>\<newline>'' @
     ''  <head>\<newline>'' @
     ''    <title>Access Page</title>\<newline>'' @
     ''  </head>\<newline>'' @
     ''  <body>\<newline>'' @
     ''    <h2>You have successfully reached the Access Page</h2>\<newline>'' @
     ''    <p>This page requires either the <code>test.access</code> or <code>test.admin</code> scope.</p>\<newline>'' @
     ''    <hr/>\<newline>'' @
     ''    <p>Visit the <a href="/protected/admin">Admin Page</a>.</p>\<newline>'' @
     ''  </body>\<newline>'' @
     ''</html>''\<close>

definition adminPage :: string where
  \<open>adminPage =
     ''\<newline><html>\<newline>'' @
     ''  <head>\<newline>'' @
     ''    <title>Admin Page</title>\<newline>'' @
     ''  </head>\<newline>'' @
     ''  <body>\<newline>'' @
     ''    <h2>You have successfully reached the Admin Page</h2>\<newline>'' @
     ''    <p>This page requires the <code>test.admin</code> scope.</p>\<newline>'' @
     ''    <hr/>\<newline>'' @
     ''    <p>Visit the <a href="/protected/access">Access Page</a>.</p>\<newline>'' @
     ''  </body>\<newline>'' @
     ''</html>''\<close>

text \<open>
  The two panics of the handlers; net/http recovers a panic of a handler, logs it and
  drops the connection, so the client receives no response:
  \<^item> \<open>NilDereference\<close>: the handlers discard the error of \<^verbatim>\<open>SessionStart\<close>
    (\<^verbatim>\<open>session, _ := ...\<close>) and go on to \<^verbatim>\<open>defer session.SessionRelease(w)\<close>,
    which on the nil store is a method call on a nil interface;
  \<^item> \<open>InterfaceConversion\<close>: the unchecked type assertion
    \<^verbatim>\<open>accessToken.(string)\<close> on a value that is not a string ("interface conversion:
    interface {} is nil, not string").
\<close>

datatype fault = NilDereference | InterfaceConversion

text \<open>
  \<^verbatim>\<open>accessHandler\<close> and \<^verbatim>\<open>adminHandler\<close>. The store is only read. The parse
  error is printed to standard output and otherwise ignored: the gate runs on the
  ClaimSet that came with it.
\<close>

definition accessHandler ::
  "decoder \<Rightarrow> authConfig \<Rightarrow> 'p Manager \<Rightarrow> request \<Rightarrow> fault + response" where
  "accessHandler dec config sessionManager r =
     (case sessionManager r of
        None \<Rightarrow> Inl NilDereference
      | Some session \<Rightarrow>
     (let accessToken = sessionGet session ''access_token'' in
      case accessToken of
        VString a \<Rightarrow>
          (let (token, err) = parseToken dec a in
           if hasScope token [''test.access'', ''test.admin'']
           then Inr (Write ''text/html;charset=utf-8'' accessPage)
           else Inr (Fprintf ''YOU ARE NOT AUTHORIZED''))
      | _ \<Rightarrow> Inl InterfaceConversion))"

definition adminHandler :: "decoder \<Rightarrow> 'p Manager \<Rightarrow> request \<Rightarrow> fault + response" where
  "adminHandler dec sessionManager r =
     (case sessionManager r of
        None \<Rightarrow> Inl NilDereference
      | Some session \<Rightarrow>
     (let accessToken = sessionGet session ''access_token'' in
      case accessToken of
        VString a \<Rightarrow>
          (let (token, err) = parseToken dec a in
           if hasScope token [''test.admin'']
           then Inr (Write ''text/html;charset=utf-8'' adminPage)
           else Inr (Fprintf ''YOU ARE NOT AUTHORIZED''))
      | _ \<Rightarrow> Inl InterfaceConversion))"

subsection \<open>The callback\<close>

text \<open>
  \<^verbatim>\<open>oauth2.Token\<close>: the access token and the extra fields of the token response,
  \<^verbatim>\<open>token.Extra(key)\<close> being the nil interface for a field the provider did not send.
\<close>

record 'p oauth2_Token =
  AccessToken :: string
  Extra :: "string \<Rightarrow> 'p ivalue"

text \<open>
  \<^verbatim>\<open>http.Response\<close>: the body is given by what \<^verbatim>\<open>ioutil.ReadAll\<close> returns on it,
  the text of the read error or the bytes read.
\<close>

record http_Response =
  StatusCode :: nat
  Body :: "string + string"

text \<open>
  The library calls whose results the handler branches on; an error is the text of
  \<^verbatim>\<open>err.Error()\<close>:
  \<^item> \<open>conf_Exchange conf code\<close> is \<^verbatim>\<open>conf.Exchange(ctx, code)\<close>;
  \<^item> \<open>client_Get token url\<close> is \<^verbatim>\<open>conf.Client(ctx, token).Get(url)\<close>;
  \<^item> \<open>json_Unmarshal raw\<close> is \<^verbatim>\<open>json.Unmarshal(raw, &profile)\<close>.
\<close>

record 'p provider =
  conf_Exchange :: "oauth2_Config \<Rightarrow> string \<Rightarrow> string + 'p oauth2_Token"
  client_Get :: "'p oauth2_Token \<Rightarrow> string \<Rightarrow> string + http_Response"
  json_Unmarshal :: "string \<Rightarrow> string + 'p"

text \<open>What the handler does, in order: calls to the provider, to the session manager and
  the store, and the one call on the response writer. The deferred calls run last,
  latest first, also when the handler panics.\<close>

datatype 'p event =
    Exchange oauth2_Config string
  | ClientGet "'p oauth2_Token" string
  | BodyClose
  | SessionStart
  | SessionSet string "'p ivalue"
  | SessionRelease
  | Respond response

text \<open>
  A run of the callback: the panic it ended in, if any; the store of the request's
  session as the run leaves it (what \<^verbatim>\<open>SessionStart\<close> gives on the request, with the
  writes of the run); the calls made.
\<close>

record 'p run =
  panic :: "fault option"
  store :: "'p session option"
  calls :: "'p event list"

definition callbackHandler ::
  "'p provider \<Rightarrow> authConfig \<Rightarrow> 'p Manager \<Rightarrow> request \<Rightarrow> 'p run" where
  "callbackHandler idp config sessionManager r =
     (let conf = newConf config;
          e = queryGet r ''error''
      in
      if length e > 0 then
        \<lparr> panic = None, store = sessionManager r,
          calls = [Respond (http_Error e StatusBadRequest)] \<rparr>
      else
      let code = queryGet r ''code'' in
      if length code = 0 then
        \<lparr> panic = None, store = sessionManager r,
          calls = [Respond (http_Error ''Did not receive authcode from IdP''
                              StatusInternalServerError)] \<rparr>
      else
      case conf_Exchange idp conf code of
        Inl err \<Rightarrow>
          \<lparr> panic = None, store = sessionManager r,
            calls = [Exchange conf code,
                     Respond (http_Error err StatusInternalServerError)] \<rparr>
      | Inr token \<Rightarrow>
      (case client_Get idp token (Domain config @ ''/userinfo'') of
        Inl err \<Rightarrow>
          \<lparr> panic = None, store = sessionManager r,
            calls = [Exchange conf code, ClientGet token (Domain config @ ''/userinfo''),
                     Respond (http_Error err StatusInternalServerError)] \<rparr>
      | Inr resp \<Rightarrow>
      (case Body resp of
        Inl err \<Rightarrow>
          \<lparr> panic = None, store = sessionManager r,
            calls = [Exchange conf code, ClientGet token (Domain config @ ''/userinfo''),
                     Respond (http_Error err StatusInternalServerError), BodyClose] \<rparr>
      | Inr raw \<Rightarrow>
      (case json_Unmarshal idp raw of
        Inl err \<Rightarrow>
          \<lparr> panic = None, store = sessionManager r,
            calls = [Exchange conf code, ClientGet token (Domain config @ ''/userinfo''),
                     Respond (http_Error err StatusInternalServerError), BodyClose] \<rparr>
      | Inr profile \<Rightarrow>
      (case sessionManager r of
        None \<Rightarrow>
          \<lparr> panic = Some NilDereference, store = None,
            calls = [Exchange conf code, ClientGet token (Domain config @ ''/userinfo''),
                     SessionStart, BodyClose] \<rparr>
      | Some session \<Rightarrow>
          \<lparr> panic = None,
            store = Some
              (sessionSet
                 (sessionSet
                    (sessionSet session ''id_token'' (Extra token ''id_token''))
                    ''access_token'' (VString (AccessToken token)))
                 ''profile'' (VProfile profile)),
            calls = [Exchange conf code, ClientGet token (Domain config @ ''/userinfo''),
                     SessionStart,
                     SessionSet ''id_token'' (Extra token ''id_token''),
                     SessionSet ''access_token'' (VString (AccessToken token)),
                     SessionSet ''profile'' (VProfile profile),
                     Respond (http_Redirect ''/protected/access'' StatusMovedPermanently),
                     SessionRelease, BodyClose] \<rparr>)))))"

text \<open>Observations on what a handler did.\<close>

fun is_Exchange :: "'p event \<Rightarrow> bool" where
  "is_Exchange (Exchange c code) = True"
| "is_Exchange _ = False"

fun is_ClientGet :: "'p event \<Rightarrow> bool" where
  "is_ClientGet (ClientGet t u) = True"
| "is_ClientGet _ = False"

fun is_SessionSet :: "'p event \<Rightarrow> bool" where
  "is_SessionSet (SessionSet k v) = True"
| "is_SessionSet _ = False"

fun is_SessionStart :: "'p event \<Rightarrow> bool" where
  "is_SessionStart SessionStart = True"
| "is_SessionStart _ = False"

text \<open>The responses of a run, in order.\<close>

fun responses :: "'p event list \<Rightarrow> response list" where
  "responses [] = []"
| "responses (Respond r # evs) = r # responses evs"
| "responses (ev # evs) = responses evs"

text \<open>The keys written to the session, in order.\<close>

fun keys_written :: "'p event list \<Rightarrow> string list" where
  "keys_written [] = []"
| "keys_written (SessionSet k v # evs) = k # keys_written evs"
| "keys_written (ev # evs) = keys_written evs"

text \<open>The bodies of the responses of a run, as the handler supplied them.\<close>

definition bodies :: "'p event list \<Rightarrow> string option list" where
  "bodies evs = map resp_body (responses evs)"

subsection \<open>A sample deployment\<close>

text \<open>
  Concrete inputs on which the handlers are run below. Profile documents are kept as
  their text. The provider accepts the code \<open>good\<close> alone; the decoder knows two
  tokens, one carrying \<open>test.access\<close> and one carrying \<open>test.admin\<close>.
\<close>

definition exampleConfig :: authConfig where
  "exampleConfig =
     \<lparr> Domain = ''https://idp.example'', ClientID = ''client'',
       ClientSecret = ''secret'', CallbackURL = ''https://app.example/callback'' \<rparr>"

definition exampleToken :: "string oauth2_Token" where
  "exampleToken =
     \<lparr> AccessToken = ''tok-access'',
       Extra = (\<lambda>k. if k = ''id_token'' then VString ''idt'' else VNil) \<rparr>"

definition exampleProvider :: "string provider" where
  "exampleProvider =
     \<lparr> conf_Exchange = (\<lambda>conf code.
         if code = ''good'' then Inr exampleToken else Inl ''oauth2: cannot fetch token''),
       client_Get = (\<lambda>token url. Inr \<lparr> StatusCode = 200, Body = Inr ''{}'' \<rparr>),
       json_Unmarshal = (\<lambda>raw. Inr raw) \<rparr>"

definition exampleDecoder :: decoder where
  "exampleDecoder t =
     (if t = ''tok-access'' then Some \<lparr> scopes = [''test.access''] \<rparr>
      else if t = ''tok-admin'' then Some \<lparr> scopes = [''openid'', ''test.admin''] \<rparr>
      else None)"

definition noSession :: "string session" where
  "noSession = Map.empty"

text \<open>
  A cookie value can be unescaped when each of its percent signs is followed by two
  hexadecimal digits.
\<close>

definition isHex :: "char \<Rightarrow> bool" where
  "isHex c = (c \<in> set ''0123456789abcdefABCDEF'')"

fun validEscapes :: "string \<Rightarrow> bool" where
  "validEscapes [] = True"
| "validEscapes [c] = (c \<noteq> CHR ''%'')"
| "validEscapes [c, d] = (c \<noteq> CHR ''%'' \<and> d \<noteq> CHR ''%'')"
| "validEscapes (c # a # b # rest) =
     (if c = CHR ''%'' then isHex a \<and> isHex b \<and> validEscapes rest
      else validEscapes (a # b # rest))"

text \<open>
  A manager that holds one session: every request whose cookie can be unescaped is
  given the store of that session, a request without cookie starts a new, empty
  session, and on a cookie that cannot be unescaped \<^verbatim>\<open>SessionStart\<close> fails.
\<close>

definition exampleManager :: "string session \<Rightarrow> string Manager" where
  "exampleManager held r =
     (case cookie r of
        None \<Rightarrow> Some Map.empty
      | Some v \<Rightarrow> if validEscapes v then Some held else None)"

section \<open>Properties\<close>

subsection \<open>The scope gate\<close>

text \<open>
  Claim C2. For every ClaimSet \<open>C\<close> and every list of scope strings \<open>S\<close>,
  \<open>hasScope C S\<close> is true if and only if the set of \<open>C\<close>'s scopes and the set of
  the strings of \<open>S\<close> have an element in common. Scope strings are compared as they
  are, character by character.
\<close>

theorem hasScope_iff_intersects:
  "hasScope C S \<longleftrightarrow> set (scopes C) \<inter> set S \<noteq> {}"
  by (auto simp: hasScope_def list_ex_iff)

theorem hasScope_iff_intersects_witness:
  "hasScope \<lparr> scopes = [''openid'', ''test.admin''] \<rparr> [''test.access'', ''test.admin'']
   \<and> set [''openid'', ''test.admin''] \<inter> set [''test.access'', ''test.admin''] \<noteq> {}
   \<and> \<not> hasScope \<lparr> scopes = [''Test.Admin''] \<rparr> [''test.admin'']"
  using hasScope_iff_intersects [of "\<lparr> scopes = [''openid'', ''test.admin''] \<rparr>"
      "[''test.access'', ''test.admin'']"]
    hasScope_iff_intersects [of "\<lparr> scopes = [''Test.Admin''] \<rparr>" "[''test.admin'']"]
  by simp

text \<open>
  Claim C8. A ClaimSet with zero scopes is denied whatever the list of required scopes
  is, the empty list included.
\<close>

theorem hasScope_no_scopes:
  "scopes C = [] \<Longrightarrow> \<not> hasScope C S"
  by (simp add: hasScope_def list_ex_iff)

theorem hasScope_no_scopes_witness:
  "scopes emptyClaimSet = []
   \<and> \<not> hasScope emptyClaimSet [''test.access'', ''test.admin'']
   \<and> \<not> hasScope emptyClaimSet []"
proof -
  have h: "scopes emptyClaimSet = []"
    by (simp add: emptyClaimSet_def)
  show ?thesis
    using h hasScope_no_scopes [OF h, of "[''test.access'', ''test.admin'']"]
      hasScope_no_scopes [OF h, of "[]"]
    by simp
qed

subsection \<open>The claims parser\<close>

lemma parseToken_malformed:
  "t = [] \<or> dec t = None \<Longrightarrow> parseToken dec t = (emptyClaimSet, Some ParseError)"
  by (auto simp: parseToken_def)

subsection \<open>The protected pages\<close>

lemma accessHandler_gate:
  assumes "sessionManager r = Some session"
    and "sessionGet session ''access_token'' = VString a"
  shows "accessHandler dec config sessionManager r =
           (if ''test.access'' \<in> set (scopes (fst (parseToken dec a)))
               \<or> ''test.admin'' \<in> set (scopes (fst (parseToken dec a)))
            then Inr (Write ''text/html;charset=utf-8'' accessPage)
            else Inr (Fprintf ''YOU ARE NOT AUTHORIZED''))"
  using assms by (simp add: accessHandler_def hasScope_def split: prod.splits)

lemma adminHandler_gate:
  assumes "sessionManager r = Some session"
    and "sessionGet session ''access_token'' = VString a"
  shows "adminHandler dec sessionManager r =
           (if ''test.admin'' \<in> set (scopes (fst (parseToken dec a)))
            then Inr (Write ''text/html;charset=utf-8'' adminPage)
            else Inr (Fprintf ''YOU ARE NOT AUTHORIZED''))"
  using assms by (simp add: adminHandler_def hasScope_def split: prod.splits)

lemma unauthorized_response:
  "resp_status (Fprintf ''YOU ARE NOT AUTHORIZED'') = 200"
  "resp_body (Fprintf ''YOU ARE NOT AUTHORIZED'') = Some ''YOU ARE NOT AUTHORIZED''"
  by (simp_all add: StatusOK_def)

lemma malformed_token_denied:
  assumes "sessionManager r = Some session"
    and "sessionGet session ''access_token'' = VString a" and "a = [] \<or> dec a = None"
  shows "accessHandler dec config sessionManager r = Inr (Fprintf ''YOU ARE NOT AUTHORIZED'')"
    and "adminHandler dec sessionManager r = Inr (Fprintf ''YOU ARE NOT AUTHORIZED'')"
  using assms
  by (auto simp: accessHandler_gate adminHandler_gate parseToken_def emptyClaimSet_def)

lemma access_only_token:
  "accessHandler exampleDecoder config
       (exampleManager [''access_token'' \<mapsto> VString ''tok-access''])
       \<lparr> query = [], cookie = Some ''sid'' \<rparr> =
     Inr (Write ''text/html;charset=utf-8'' accessPage)"
  "adminHandler exampleDecoder
       (exampleManager [''access_token'' \<mapsto> VString ''tok-access''])
       \<lparr> query = [], cookie = Some ''sid'' \<rparr> =
     Inr (Fprintf ''YOU ARE NOT AUTHORIZED'')"
  by (simp_all add: accessHandler_def adminHandler_def hasScope_def exampleManager_def
      sessionGet_def parseToken_def exampleDecoder_def)

lemma session_start_failure_panics:
  assumes "sessionManager r = None"
  shows "accessHandler dec config sessionManager r = Inl NilDereference"
    and "adminHandler dec sessionManager r = Inl NilDereference"
  using assms by (simp_all add: accessHandler_def adminHandler_def)

text \<open>
  Claim C1. A request to a protected page whose session holds no access token at all
  does not complete: \<^verbatim>\<open>session.Get\<close> returns the nil interface, the unchecked
  assertion \<^verbatim>\<open>accessToken.(string)\<close> panics before the token is parsed, and neither
  page nor the unauthorized text is written. This is so on every request, whenever the
  store that the session manager returns holds no access token. (With an empty or
  unparsable token string the handlers do answer with the unauthorized text, see
  \<open>malformed_token_denied\<close>.)
\<close>

theorem missing_token_panics:
  "sessionGet Map.empty ''access_token'' = VNil
   \<and> accessHandler dec config (\<lambda>r. Some Map.empty) r = Inl InterfaceConversion
   \<and> adminHandler dec (\<lambda>r. Some Map.empty) r = Inl InterfaceConversion"
  by (simp add: sessionGet_def accessHandler_def adminHandler_def)

text \<open>
  Claim C7. The request of a client that has not logged in fails both gates (it has no
  claims at all), and yet it is not answered with status 200 and the body
  "YOU ARE NOT AUTHORIZED": on the new session of such a client, which holds no access
  token, neither handler produces a response. (Whenever the session holds a token
  string, the gates are as claimed, see \<open>accessHandler_gate\<close>, \<open>adminHandler_gate\<close>
  and \<open>access_only_token\<close>.)
\<close>

theorem unauthenticated_not_answered:
  "accessHandler exampleDecoder exampleConfig (exampleManager held) \<lparr> query = [], cookie = None \<rparr>
     \<noteq> Inr (Fprintf ''YOU ARE NOT AUTHORIZED'')
   \<and> adminHandler exampleDecoder (exampleManager held) \<lparr> query = [], cookie = None \<rparr>
     \<noteq> Inr (Fprintf ''YOU ARE NOT AUTHORIZED'')
   \<and> (\<forall>resp. accessHandler exampleDecoder exampleConfig (exampleManager held)
         \<lparr> query = [], cookie = None \<rparr> \<noteq> Inr resp)
   \<and> (\<forall>resp. adminHandler exampleDecoder (exampleManager held)
         \<lparr> query = [], cookie = None \<rparr> \<noteq> Inr resp)
   \<and> accessHandler exampleDecoder exampleConfig (exampleManager held)
         \<lparr> query = [], cookie = None \<rparr> = Inl InterfaceConversion
   \<and> adminHandler exampleDecoder (exampleManager held)
         \<lparr> query = [], cookie = None \<rparr> = Inl InterfaceConversion"
  by (simp add: exampleManager_def sessionGet_def accessHandler_def adminHandler_def)

subsection \<open>The callback\<close>

lemma callback_outcomes:
  "(panic (callbackHandler idp config sessionManager r) = None
      \<and> responses (calls (callbackHandler idp config sessionManager r)) =
          [http_Redirect ''/protected/access'' 301])
   \<or> (panic (callbackHandler idp config sessionManager r) = None
      \<and> (\<exists>msg status. responses (calls (callbackHandler idp config sessionManager r)) =
            [http_Error msg status] \<and> 400 \<le> status)
      \<and> store (callbackHandler idp config sessionManager r) = sessionManager r)
   \<or> (panic (callbackHandler idp config sessionManager r) = Some NilDereference
      \<and> responses (calls (callbackHandler idp config sessionManager r)) = []
      \<and> keys_written (calls (callbackHandler idp config sessionManager r)) = []
      \<and> sessionManager r = None)"
  by (auto simp: callbackHandler_def Let_def StatusMovedPermanently_def StatusBadRequest_def
      StatusInternalServerError_def split: sum.splits option.splits)

text \<open>
  Claim C3, as amended. On a callback whose query carries a code and no error reported
  by the provider, when the exchange, the profile fetch, the reading of the body and
  its decoding all succeed and the session manager starts the session, the handler
  calls the token exchange once, then fetches the profile once, then opens the session
  and sets the keys \<open>id_token\<close>, \<open>access_token\<close> and \<open>profile\<close>, once each, and
  then redirects to \<open>/protected/access\<close> with status 301; only the deferred release
  of the session and close of the body follow. The store afterwards is the old one
  with the three keys set.
\<close>

theorem callback_success:
  assumes "queryGet r ''error'' = []"
    and "queryGet r ''code'' = code" and "code \<noteq> []"
    and "conf_Exchange idp (newConf config) code = Inr token"
    and "client_Get idp token (Domain config @ ''/userinfo'') = Inr resp"
    and "Body resp = Inr raw"
    and "json_Unmarshal idp raw = Inr profile"
    and "sessionManager r = Some session"
  shows "callbackHandler idp config sessionManager r =
           \<lparr> panic = None,
             store = Some (session(''id_token'' \<mapsto> Extra token ''id_token'',
                                   ''access_token'' \<mapsto> VString (AccessToken token),
                                   ''profile'' \<mapsto> VProfile profile)),
             calls =
               [Exchange (newConf config) code,
                ClientGet token (Domain config @ ''/userinfo''),
                SessionStart,
                SessionSet ''id_token'' (Extra token ''id_token''),
                SessionSet ''access_token'' (VString (AccessToken token)),
                SessionSet ''profile'' (VProfile profile),
                Respond (http_Redirect ''/protected/access'' 301),
                SessionRelease, BodyClose] \<rparr>"
  using assms by (simp add: callbackHandler_def sessionSet_def StatusMovedPermanently_def)

theorem callback_success_witness:
  "callbackHandler exampleProvider exampleConfig (exampleManager noSession)
       \<lparr> query = [(''code'', ''good'')], cookie = Some ''sid'' \<rparr> =
     \<lparr> panic = None,
       store = Some (noSession(''id_token'' \<mapsto> VString ''idt'',
                               ''access_token'' \<mapsto> VString ''tok-access'',
                               ''profile'' \<mapsto> VProfile ''{}'')),
       calls =
         [Exchange (newConf exampleConfig) ''good'',
          ClientGet exampleToken ''https://idp.example/userinfo'',
          SessionStart,
          SessionSet ''id_token'' (VString ''idt''),
          SessionSet ''access_token'' (VString ''tok-access''),
          SessionSet ''profile'' (VProfile ''{}''),
          Respond (http_Redirect ''/protected/access'' 301),
          SessionRelease, BodyClose] \<rparr>"
proof -
  let ?r = "\<lparr> query = [(''code'', ''good'')], cookie = Some ''sid'' \<rparr>"
  let ?resp = "\<lparr> StatusCode = 200, Body = Inr ''{}'' \<rparr>"
  have 1: "queryGet ?r ''error'' = []"
    by (simp add: queryGet_def)
  have 2: "queryGet ?r ''code'' = ''good''"
    by (simp add: queryGet_def)
  have 3: "''good'' \<noteq> []"
    by simp
  have 4: "conf_Exchange exampleProvider (newConf exampleConfig) ''good'' = Inr exampleToken"
    by (simp add: exampleProvider_def)
  have 5: "client_Get exampleProvider exampleToken (Domain exampleConfig @ ''/userinfo'') = Inr ?resp"
    by (simp add: exampleProvider_def)
  have 6: "Body ?resp = Inr ''{}''"
    by simp
  have 7: "json_Unmarshal exampleProvider ''{}'' = Inr ''{}''"
    by (simp add: exampleProvider_def)
  have 8: "exampleManager noSession ?r = Some noSession"
    by (simp add: exampleManager_def)
  show ?thesis
    using callback_success [where sessionManager = "exampleManager noSession" and r = ?r,
        OF 1 2 3 4 5 6 7 8]
    by (simp add: exampleToken_def exampleConfig_def)
qed

text \<open>
  Counterexample to C3 as the spec words it: the code is valid and the provider answers
  every call, but the request's session cookie cannot be unescaped. The handler spends
  the code and fetches the profile, \<^verbatim>\<open>SessionStart\<close> returns the nil store, whose error
  the handler discards, and the handler panics at the deferred release: no key is
  written and no redirect is sent.
\<close>

theorem callback_session_start_counterexample:
  "queryGet \<lparr> query = [(''code'', ''good'')], cookie = Some ''%zz'' \<rparr> ''error'' = []
   \<and> queryGet \<lparr> query = [(''code'', ''good'')], cookie = Some ''%zz'' \<rparr> ''code'' = ''good''
   \<and> conf_Exchange exampleProvider (newConf exampleConfig) ''good'' = Inr exampleToken
   \<and> client_Get exampleProvider exampleToken (Domain exampleConfig @ ''/userinfo'')
       = Inr \<lparr> StatusCode = 200, Body = Inr ''{}'' \<rparr>
   \<and> json_Unmarshal exampleProvider ''{}'' = Inr ''{}''
   \<and> exampleManager noSession \<lparr> query = [(''code'', ''good'')], cookie = Some ''%zz'' \<rparr> = None
   \<and> callbackHandler exampleProvider exampleConfig (exampleManager noSession)
         \<lparr> query = [(''code'', ''good'')], cookie = Some ''%zz'' \<rparr>
       = \<lparr> panic = Some NilDereference, store = None,
           calls = [Exchange (newConf exampleConfig) ''good'',
                    ClientGet exampleToken ''https://idp.example/userinfo'',
                    SessionStart, BodyClose] \<rparr>
   \<and> responses (calls (callbackHandler exampleProvider exampleConfig (exampleManager noSession)
         \<lparr> query = [(''code'', ''good'')], cookie = Some ''%zz'' \<rparr>)) = []
   \<and> keys_written (calls (callbackHandler exampleProvider exampleConfig (exampleManager noSession)
         \<lparr> query = [(''code'', ''good'')], cookie = Some ''%zz'' \<rparr>)) = []"
  by (simp add: queryGet_def exampleProvider_def exampleManager_def isHex_def
      callbackHandler_def exampleConfig_def)

text \<open>
  Claim C4. Whenever the callback ends in an error response, that is, whenever it calls
  \<^verbatim>\<open>http.Error\<close> (for the provider's error parameter, a missing code, a failed
  exchange, a failed profile fetch, a failed read of the body, a failed decoding), the
  session is what it was before the request: no key was set and the session was not
  even opened. Such a run ends without panic.
\<close>

theorem callback_error_keeps_session:
  assumes "Respond (http_Error msg status) \<in> set (calls (callbackHandler idp config sessionManager r))"
  shows "store (callbackHandler idp config sessionManager r) = sessionManager r
         \<and> keys_written (calls (callbackHandler idp config sessionManager r)) = []
         \<and> \<not> list_ex is_SessionStart (calls (callbackHandler idp config sessionManager r))
         \<and> panic (callbackHandler idp config sessionManager r) = None"
  using assms
  by (auto simp: callbackHandler_def Let_def split: if_splits sum.splits option.splits)

theorem callback_error_keeps_session_witness:
  "callbackHandler exampleProvider exampleConfig
       (exampleManager [''profile'' \<mapsto> VProfile ''old''])
       \<lparr> query = [(''code'', ''stale'')], cookie = Some ''sid'' \<rparr>
     = \<lparr> panic = None, store = Some [''profile'' \<mapsto> VProfile ''old''],
         calls = [Exchange (newConf exampleConfig) ''stale'',
                  Respond (http_Error ''oauth2: cannot fetch token'' 500)] \<rparr>
   \<and> keys_written (calls (callbackHandler exampleProvider exampleConfig
       (exampleManager [''profile'' \<mapsto> VProfile ''old''])
       \<lparr> query = [(''code'', ''stale'')], cookie = Some ''sid'' \<rparr>)) = []"
proof -
  let ?sm = "exampleManager [''profile'' \<mapsto> VProfile ''old'']"
  let ?r = "\<lparr> query = [(''code'', ''stale'')], cookie = Some ''sid'' \<rparr>"
  have run: "callbackHandler exampleProvider exampleConfig ?sm ?r
     = \<lparr> panic = None, store = Some [''profile'' \<mapsto> VProfile ''old''],
         calls = [Exchange (newConf exampleConfig) ''stale'',
                  Respond (http_Error ''oauth2: cannot fetch token'' 500)] \<rparr>"
    by (simp add: callbackHandler_def queryGet_def exampleProvider_def exampleManager_def
        StatusInternalServerError_def)
  have err: "Respond (http_Error ''oauth2: cannot fetch token'' 500)
     \<in> set (calls (callbackHandler exampleProvider exampleConfig ?sm ?r))"
    by (simp add: run)
  show ?thesis
    using run callback_error_keeps_session [OF err] by simp
qed

text \<open>
  Claim C5. When the query carries a non-empty error parameter, the callback answers
  with status 400 and a body that contains the error text (the text, then a newline),
  and does nothing else: no token exchange, no profile fetch, no access to the
  session, which stays as it was. Whether the query carries a code does not matter.
\<close>

theorem callback_error_param:
  assumes "queryGet r ''error'' = e" and "e \<noteq> []"
  shows "callbackHandler idp config sessionManager r =
           \<lparr> panic = None, store = sessionManager r, calls = [Respond (http_Error e 400)] \<rparr>
         \<and> resp_status (http_Error e 400) = 400
         \<and> resp_body (http_Error e 400) = Some (e @ ''\<newline>'')
         \<and> sublist e (e @ ''\<newline>'')"
  using assms by (simp add: callbackHandler_def StatusBadRequest_def)

theorem callback_error_param_witness:
  "callbackHandler exampleProvider exampleConfig (exampleManager noSession)
       \<lparr> query = [(''code'', ''good''), (''error'', ''access_denied'')], cookie = None \<rparr>
     = \<lparr> panic = None, store = Some Map.empty,
         calls = [Respond (http_Error ''access_denied'' 400)] \<rparr>
   \<and> resp_body (http_Error ''access_denied'' 400) = Some ''access_denied\<newline>''"
proof -
  let ?r = "\<lparr> query = [(''code'', ''good''), (''error'', ''access_denied'')], cookie = None \<rparr>"
  have 1: "queryGet ?r ''error'' = ''access_denied''"
    by (simp add: queryGet_def)
  have 2: "''access_denied'' \<noteq> []"
    by simp
  show ?thesis
    using callback_error_param [OF 1 2, of exampleProvider exampleConfig "exampleManager noSession"]
    by (simp add: exampleManager_def)
qed

text \<open>
  Claim C6, as amended. When the query carries no error parameter (or an empty one)
  and no code (or an empty one), the callback answers with status 500 and the message
  "Did not receive authcode from IdP", and does nothing else: no token exchange, no
  access to the session, which stays as it was.
\<close>

theorem callback_missing_code:
  assumes "queryGet r ''error'' = []" and "queryGet r ''code'' = []"
  shows "callbackHandler idp config sessionManager r =
           \<lparr> panic = None, store = sessionManager r,
             calls = [Respond (http_Error ''Did not receive authcode from IdP'' 500)] \<rparr>
         \<and> resp_status (http_Error ''Did not receive authcode from IdP'' 500) = 500
         \<and> resp_body (http_Error ''Did not receive authcode from IdP'' 500) =
             Some ''Did not receive authcode from IdP\<newline>''"
  using assms by (simp add: callbackHandler_def StatusInternalServerError_def)

theorem callback_missing_code_witness:
  "callbackHandler exampleProvider exampleConfig (exampleManager noSession)
       \<lparr> query = [(''state'', ''xyz'')], cookie = None \<rparr>
     = \<lparr> panic = None, store = Some Map.empty,
         calls = [Respond (http_Error ''Did not receive authcode from IdP'' 500)] \<rparr>"
proof -
  let ?r = "\<lparr> query = [(''state'', ''xyz'')], cookie = None \<rparr>"
  have 1: "queryGet ?r ''error'' = []"
    by (simp add: queryGet_def)
  have 2: "queryGet ?r ''code'' = []"
    by (simp add: queryGet_def)
  show ?thesis
    using callback_missing_code [OF 1 2, of exampleProvider exampleConfig "exampleManager noSession"]
    by (simp add: exampleManager_def)
qed

text \<open>
  Counterexample to C6 as the spec words it: on a query with neither error nor code the
  body of the one response is not "authorization code missing" and does not contain it.
\<close>

theorem callback_missing_code_counterexample:
  "queryGet \<lparr> query = [], cookie = None \<rparr> ''error'' = []
   \<and> queryGet \<lparr> query = [], cookie = None \<rparr> ''code'' = []
   \<and> bodies (calls (callbackHandler exampleProvider exampleConfig (exampleManager noSession)
         \<lparr> query = [], cookie = None \<rparr>))
       = [Some ''Did not receive authcode from IdP\<newline>'']
   \<and> \<not> sublist ''authorization code missing'' ''Did not receive authcode from IdP\<newline>''"
proof -
  have "\<not> sublist ''authorization code missing'' ''Did not receive authcode from IdP\<newline>''"
    by code_simp
  then show ?thesis
    by (simp add: queryGet_def callbackHandler_def bodies_def)
qed

text \<open>
  Claim C10. The configuration of the token exchange is a function of the static
  configuration alone: its requested scopes are \<open>openid\<close>, \<open>test.access\<close>,
  \<open>test.admin\<close>, its endpoints are the domain followed by \<open>/oauth/authorize\<close> and
  \<open>/oauth/token\<close>, and every token exchange of every run of the callback, whatever
  the request, the session and the provider's answers, is made with it.
\<close>

theorem callback_conf_fixed:
  "Scopes (newConf config) = [''openid'', ''test.access'', ''test.admin'']
   \<and> AuthURL (Endpoint (newConf config)) = Domain config @ ''/oauth/authorize''
   \<and> TokenURL (Endpoint (newConf config)) = Domain config @ ''/oauth/token''
   \<and> (\<forall>c code. Exchange c code \<in> set (calls (callbackHandler idp config sessionManager r))
         \<longrightarrow> c = newConf config)"
  by (auto simp: newConf_def callbackHandler_def Let_def split: if_splits sum.splits option.splits)

theorem callback_conf_fixed_witness:
  "Exchange (newConf exampleConfig) ''good''
     \<in> set (calls (callbackHandler exampleProvider exampleConfig (exampleManager noSession)
                   \<lparr> query = [(''code'', ''good'')], cookie = None \<rparr>))
   \<and> Scopes (newConf exampleConfig) = [''openid'', ''test.access'', ''test.admin'']
   \<and> AuthURL (Endpoint (newConf exampleConfig)) = ''https://idp.example/oauth/authorize''
   \<and> TokenURL (Endpoint (newConf exampleConfig)) = ''https://idp.example/oauth/token''"
proof -
  have "Exchange (newConf exampleConfig) ''good''
     \<in> set (calls (callbackHandler exampleProvider exampleConfig (exampleManager noSession)
                   \<lparr> query = [(''code'', ''good'')], cookie = None \<rparr>))"
    by (simp add: callbackHandler_def queryGet_def exampleProvider_def exampleManager_def)
  then show ?thesis
    using callback_conf_fixed [of exampleConfig exampleProvider "exampleManager noSession"
        "\<lparr> query = [(''code'', ''good'')], cookie = None \<rparr>"]
    by (simp add: exampleConfig_def)
qed

end
